theory Spec2Isabelle
  imports Complex_Main
begin

section \<open>Python values and exceptions\<close>

text \<open>
  The values that cross the boundaries of \<^verbatim>\<open>titiler/pgstac/dependencies.py\<close>: what
  psycopg hands back for a \<^verbatim>\<open>jsonb\<close> column and what a pydantic field holds.
  \<open>PNone\<close> is Python's \<^verbatim>\<open>None\<close> (JSON \<^verbatim>\<open>null\<close>); a dict keeps its items in
  order as an association list whose keys are strings, as JSON objects have them.
\<close>

datatype pyval =
    PNone
  | PBool bool
  | PInt int
  | PFloat real
  | PStr string
  | PList "pyval list"
  | PDict "(string \<times> pyval) list"

text \<open>
  Exceptions are values. \<open>HTTPException status detail\<close> is FastAPI's exception; the
  others are the Python built-ins the code can run into, \<open>JSONDecodeError\<close> the one the
  \<^verbatim>\<open>json\<close> module raises, and \<open>LibraryError\<close> stands for an exception raised inside a
  collaborator (pydantic validation, pystac, psycopg, rio-tiler, matplotlib).
\<close>

datatype error =
    HTTPException nat string
  | JSONDecodeError
  | TypeError
  | KeyError
  | ValueError
  | LibraryError string

section \<open>Search parameters\<close>

text \<open>
  A pydantic model instance is the list of its fields in declaration order. Each field
  has the attribute name the class declares, the alias it is serialised under
  (\<^verbatim>\<open>filter_lang\<close> is declared with the alias \<^verbatim>\<open>filter-lang\<close>; a field without an
  alias has its name as alias) and its current value, \<open>None\<close> when the value is Python's
  \<^verbatim>\<open>None\<close>. The declaration of \<^verbatim>\<open>model.RegisterMosaic\<close> is not part of the sources
  at hand, so the field list is a parameter of everything below.
\<close>

record 'v field =
  field_name :: string
  field_alias :: string
  field_val :: "'v option"

type_synonym 'v model = "'v field list"

text \<open>
  \<^verbatim>\<open>BaseModel.dict(exclude_none=..., exclude=..., by_alias=...)\<close>: the fields are
  visited in order; a field whose name is in \<open>exclude\<close> is skipped, and so is a field
  whose value is \<^verbatim>\<open>None\<close> when \<open>exclude_none\<close> is set; a field that is kept is
  emitted under its alias when \<open>by_alias\<close> is set and under its name otherwise.
\<close>

definition model_dict :: "bool \<Rightarrow> string list \<Rightarrow> bool \<Rightarrow> 'v model \<Rightarrow> (string \<times> 'v option) list" where
  "model_dict exclude_none exclude by_alias body =
     map (\<lambda>f. (if by_alias then field_alias f else field_name f, field_val f))
       (filter (\<lambda>f. field_name f \<notin> set exclude \<and> \<not> (exclude_none \<and> Option.is_none (field_val f))) body)"

text \<open>Attribute access \<^verbatim>\<open>body.metadata\<close>: the value of the field of that name.\<close>

definition model_getattr :: "'v model \<Rightarrow> string \<Rightarrow> error + 'v option" where
  "model_getattr body n =
     (case find (\<lambda>f. field_name f = n) body of
        None \<Rightarrow> Inl (LibraryError ''AttributeError'')
      | Some f \<Rightarrow> Inr (field_val f))"

text \<open>
  The local variable \<^verbatim>\<open>search\<close> of \<^verbatim>\<open>SearchParams\<close>:
  \<^verbatim>\<open>body.dict(exclude_none=True, exclude={"metadata"}, by_alias=True)\<close>.
\<close>

definition SearchParams_search :: "'v model \<Rightarrow> (string \<times> 'v option) list" where
  "SearchParams_search body = model_dict True [''metadata''] True body"

text \<open>
  \<^verbatim>\<open>SearchParams\<close> returns \<^verbatim>\<open>(model.PgSTACSearch(**search), body.metadata)\<close>. The
  constructor \<open>PgSTACSearch\<close> belongs to the absent \<^verbatim>\<open>model\<close> module and is a
  parameter; it may raise a validation error.
\<close>

definition SearchParams ::
  "((string \<times> 'v option) list \<Rightarrow> error + 's) \<Rightarrow> 'v model \<Rightarrow> error + ('s \<times> 'v option)" where
  "SearchParams PgSTACSearch body =
     (case PgSTACSearch (SearchParams_search body) of
        Inl e \<Rightarrow> Inl e
      | Inr s \<Rightarrow>
          (case model_getattr body ''metadata'' of
             Inl e \<Rightarrow> Inl e
           | Inr m \<Rightarrow> Inr (s, m)))"

section \<open>Single-item lookup\<close>

subsection \<open>The Python operations the lookup uses\<close>

text \<open>Truth value of an object, as \<^verbatim>\<open>not resp\<close> tests it.\<close>

fun truthy :: "pyval \<Rightarrow> bool" where
  "truthy PNone = False"
| "truthy (PBool b) = b"
| "truthy (PInt i) = (i \<noteq> 0)"
| "truthy (PFloat x) = (x \<noteq> 0)"
| "truthy (PStr s) = (s \<noteq> [])"
| "truthy (PList xs) = (xs \<noteq> [])"
| "truthy (PDict d) = (d \<noteq> [])"

text \<open>Substring test, for \<^verbatim>\<open>in\<close> on a string.\<close>

fun str_contains :: "string \<Rightarrow> string \<Rightarrow> bool" where
  "str_contains [] sub = (sub = [])"
| "str_contains (c # cs) sub = (take (length sub) (c # cs) = sub \<or> str_contains cs sub)"

text \<open>
  \<^verbatim>\<open>key in obj\<close> for a string key: a key of a dict, an element of a list, a
  substring of a string; a TypeError on anything that is not a container.
\<close>

fun py_contains :: "string \<Rightarrow> pyval \<Rightarrow> error + bool" where
  "py_contains k (PDict d) = Inr (k \<in> fst ` set d)"
| "py_contains k (PList xs) = Inr (PStr k \<in> set xs)"
| "py_contains k (PStr s) = Inr (str_contains s k)"
| "py_contains k _ = Inl TypeError"

text \<open>\<^verbatim>\<open>obj[key]\<close> for a string key: only a dict can be indexed by a string.\<close>

fun py_getitem_str :: "pyval \<Rightarrow> string \<Rightarrow> error + pyval" where
  "py_getitem_str (PDict d) k = (case map_of d k of None \<Rightarrow> Inl KeyError | Some v \<Rightarrow> Inr v)"
| "py_getitem_str _ k = Inl TypeError"

text \<open>\<^verbatim>\<open>len(obj)\<close>.\<close>

fun py_len :: "pyval \<Rightarrow> error + nat" where
  "py_len (PStr s) = Inr (length s)"
| "py_len (PList xs) = Inr (length xs)"
| "py_len (PDict d) = Inr (length d)"
| "py_len _ = Inl TypeError"

text \<open>
  \<^verbatim>\<open>obj[0]\<close>: the first element of a list, the first character of a string; a dict
  decoded from JSON has string keys only, so \<^verbatim>\<open>0\<close> is a missing key.
\<close>

fun py_getitem_0 :: "pyval \<Rightarrow> error + pyval" where
  "py_getitem_0 (PList []) = Inl (LibraryError ''IndexError'')"
| "py_getitem_0 (PList (x # xs)) = Inr x"
| "py_getitem_0 (PStr []) = Inl (LibraryError ''IndexError'')"
| "py_getitem_0 (PStr (c # cs)) = Inr (PStr [c])"
| "py_getitem_0 (PDict d) = Inl KeyError"
| "py_getitem_0 _ = Inl TypeError"

subsection \<open>The catalog\<close>

text \<open>
  A connection pool is what the lookup sees of it: given the SQL text and its one
  parameter, \<^verbatim>\<open>cursor.execute\<close> followed by \<^verbatim>\<open>cursor.fetchone()\<close> either fails (the
  connection or the query raises) or yields a row, a dict from column names to values
  (\<open>None\<close> when the query has no row). The parameter is the search request serialised
  by \<^verbatim>\<open>search.json(by_alias=True, exclude_none=True)\<close>; it is passed on as the dict
  that is serialised.
\<close>

type_synonym row = "(string \<times> pyval) list"

type_synonym pool = "string \<Rightarrow> (string \<times> pyval option) list \<Rightarrow> error + row option"

text \<open>
  \<^verbatim>\<open>model.PgSTACSearch(ids=[item], collections=[collection])\<close>. The other fields of the
  class are left unset by this call.
\<close>

definition item_search :: "string \<Rightarrow> string \<Rightarrow> pyval model" where
  "item_search collection item =
     [\<lparr>field_name = ''ids'', field_alias = ''ids'', field_val = Some (PList [PStr item])\<rparr>,
      \<lparr>field_name = ''collections'', field_alias = ''collections'',
        field_val = Some (PList [PStr collection])\<rparr>]"

text \<open>The exception of line 102: status 404 and a detail naming the item and the collection.\<close>

definition item_not_found :: "string \<Rightarrow> string \<Rightarrow> error" where
  "item_not_found collection item =
     HTTPException 404 (''No item '' @ [CHR 0x27] @ item @ [CHR 0x27] @ '' found in ''
        @ [CHR 0x27] @ collection @ [CHR 0x27] @ '' collection'')"

text \<open>
  The body of \<^verbatim>\<open>get_stac_item\<close> (the function the \<^verbatim>\<open>cached\<close> decorator wraps).
  \<open>from_dict\<close> is \<^verbatim>\<open>pystac.Item.from_dict\<close>, a parameter: it yields the item or
  raises an exception of pystac's, given here by its message.
\<close>

definition get_stac_item_body ::
  "(pyval \<Rightarrow> string + 'item) \<Rightarrow> pool \<Rightarrow> string \<Rightarrow> string \<Rightarrow> error + 'item" where
  "get_stac_item_body from_dict pool collection item =
     (case pool ''SELECT * FROM pgstac.search(%s) LIMIT 1;''
             (model_dict True [] True (item_search collection item)) of
        Inl e \<Rightarrow> Inl e
      | Inr None \<Rightarrow> Inl TypeError
      | Inr (Some fetched) \<Rightarrow>
          (case py_getitem_str (PDict fetched) ''search'' of
             Inl e \<Rightarrow> Inl e
           | Inr resp \<Rightarrow>
               if truthy resp then
                 (case py_contains ''features'' resp of
                    Inl e \<Rightarrow> Inl e
                  | Inr False \<Rightarrow> Inl (item_not_found collection item)
                  | Inr True \<Rightarrow>
                      (case py_getitem_str resp ''features'' of
                         Inl e \<Rightarrow> Inl e
                       | Inr features \<Rightarrow>
                           (case py_len features of
                              Inl e \<Rightarrow> Inl e
                            | Inr n \<Rightarrow>
                                if n = 1 then
                                  (case py_getitem_0 features of
                                     Inl e \<Rightarrow> Inl e
                                   | Inr feature \<Rightarrow>
                                       (case from_dict feature of
                                          Inl msg \<Rightarrow> Inl (LibraryError msg)
                                        | Inr it \<Rightarrow> Inr it))
                                else Inl (item_not_found collection item))))
               else Inl (item_not_found collection item)))"

subsection \<open>The cache\<close>

text \<open>
  \<^verbatim>\<open>cache_config = CacheSettings()\<close>: the entry bound and the time to live of the
  cache, read from the environment.
\<close>

record CacheSettings =
  maxsize :: nat
  ttl :: real

text \<open>
  \<^verbatim>\<open>TTLCache(maxsize, ttl)\<close> of cachetools, by its documented behaviour. The cache
  holds at most \<open>maxsize\<close> entries, each with the time at which it expires; the list is
  in order of use, least recently used first. An entry has expired at time \<open>now\<close>
  unless \<open>now\<close> is before its expiry time. The clock is monotonic and the time to live
  is one constant, so the entries expire in the order of their insertion, and the
  library's purge from the oldest entry on removes exactly the expired entries.
\<close>

type_synonym ('k, 'v) ttl_entries = "('k \<times> 'v \<times> real) list"

definition TTLCache_expire :: "real \<Rightarrow> ('k, 'v) ttl_entries \<Rightarrow> ('k, 'v) ttl_entries" where
  "TTLCache_expire now es = filter (\<lambda>(k, v, expires). now < expires) es"

text \<open>
  \<^verbatim>\<open>cache[key]\<close>: a KeyError (\<open>None\<close>) when the key is absent or its entry has
  expired, the value otherwise; looking an entry up marks it most recently used.
\<close>

definition TTLCache_getitem ::
  "real \<Rightarrow> 'k \<Rightarrow> ('k, 'v) ttl_entries \<Rightarrow> 'v option \<times> ('k, 'v) ttl_entries" where
  "TTLCache_getitem now key es =
     (case map_of es key of
        None \<Rightarrow> (None, es)
      | Some (v, expires) \<Rightarrow>
          (if now < expires then Some v else None,
           filter (\<lambda>e. fst e \<noteq> key) es @ [(key, v, expires)]))"

text \<open>
  \<^verbatim>\<open>popitem\<close> in the loop \<^verbatim>\<open>while currsize + size > maxsize\<close>: the least recently
  used entries go until one more entry fits.
\<close>

fun TTLCache_evict :: "nat \<Rightarrow> ('k, 'v) ttl_entries \<Rightarrow> ('k, 'v) ttl_entries" where
  "TTLCache_evict bound [] = []"
| "TTLCache_evict bound (e # es) =
     (if length (e # es) + 1 > bound then TTLCache_evict bound es else e # es)"

text \<open>
  \<^verbatim>\<open>cache[key] = value\<close>: expired entries are purged first; a value does not fit a
  cache of size zero (ValueError, \<open>Inl\<close>); for a new key room is made; the entry is
  stored as most recently used, expiring \<open>ttl\<close> after \<open>now\<close>.
\<close>

definition TTLCache_setitem ::
  "CacheSettings \<Rightarrow> real \<Rightarrow> 'k \<Rightarrow> 'v \<Rightarrow> ('k, 'v) ttl_entries
     \<Rightarrow> error + ('k, 'v) ttl_entries" where
  "TTLCache_setitem cfg now key v es =
     (let live = TTLCache_expire now es in
      if 1 > maxsize cfg then Inl ValueError
      else
        (let room = (if key \<in> fst ` set live then live else TTLCache_evict (maxsize cfg) live)
         in Inr (filter (\<lambda>e. fst e \<noteq> key) room @ [(key, v, now + ttl cfg)])))"

text \<open>
  The key function of the decorator,
  \<^verbatim>\<open>key=lambda pool, collection, item: hashkey(collection, item)\<close>.
\<close>

definition cache_key :: "pool \<Rightarrow> string \<Rightarrow> string \<Rightarrow> string \<times> string" where
  "cache_key pool collection item = (collection, item)"

text \<open>
  The state of the process: the entries of the one cache behind \<^verbatim>\<open>get_stac_item\<close>,
  and the number of times the body has run, which is the number of fetches sent to the
  catalog.
\<close>

record 'item item_cache =
  entries :: "(string \<times> string, 'item) ttl_entries"
  fetches :: nat

text \<open>
  \<^verbatim>\<open>get_stac_item\<close> as decorated by \<^verbatim>\<open>cached\<close>, called at time \<open>now\<close>: the cache
  is asked for the key; on a KeyError the body runs, and its result is stored unless
  the cache refuses it (the ValueError is swallowed); an exception of the body leaves
  nothing stored. The clock is read once per call.
\<close>

definition get_stac_item ::
  "CacheSettings \<Rightarrow> (pyval \<Rightarrow> string + 'item) \<Rightarrow> real \<Rightarrow> 'item item_cache
     \<Rightarrow> pool \<Rightarrow> string \<Rightarrow> string \<Rightarrow> (error + 'item) \<times> 'item item_cache" where
  "get_stac_item cfg from_dict now s pool collection item =
     (let k = cache_key pool collection item;
          (hit, es) = TTLCache_getitem now k (entries s)
      in case hit of
           Some v \<Rightarrow> (Inr v, s\<lparr>entries := es\<rparr>)
         | None \<Rightarrow>
             (case get_stac_item_body from_dict pool collection item of
                Inl e \<Rightarrow> (Inl e, s\<lparr>entries := es, fetches := fetches s + 1\<rparr>)
              | Inr v \<Rightarrow>
                  (Inr v,
                   s\<lparr>entries := (case TTLCache_setitem cfg now k v es of
                                  Inl e \<Rightarrow> TTLCache_expire now es
                                | Inr es' \<Rightarrow> es'),
                     fetches := fetches s + 1\<rparr>)))"


text \<open>
  An invariant for the proofs about such a run: the entry of key \<open>k\<close> is in the cache
  with its value and expiry time, the keys used more recently than it are among
  \<open>others\<close>, no key occurs twice, and the cache is within its bound.
\<close>

definition entry_kept ::
  "'k \<Rightarrow> 'v \<Rightarrow> real \<Rightarrow> 'k set \<Rightarrow> nat \<Rightarrow> ('k, 'v) ttl_entries \<Rightarrow> bool" where
  "entry_kept k v expires others bound es \<longleftrightarrow>
     (\<exists>older newer. es = older @ (k, v, expires) # newer \<and> fst ` set newer \<subseteq> others)
     \<and> distinct (map fst es) \<and> length es \<le> bound"

section \<open>Colormap parameters\<close>

text \<open>
  \<^verbatim>\<open>ColorMapType\<close>, the kind of a colormap given by the user, and a member of the
  enumeration \<^verbatim>\<open>ColorMapName\<close>, which holds the registered names: a member's value
  is its name.
\<close>

datatype ColorMapType = ColorMapType_explicit | ColorMapType_linear

datatype ColorMapName = ColorMapName (member_value: string)

text \<open>
  What \<^verbatim>\<open>ColorMapParams\<close> calls in other packages, as parameters over the type
  \<open>'cm\<close> of the values it passes around:
  \<^item> \<open>cmap_get\<close> is \<^verbatim>\<open>cmap.get\<close> of rio-tiler's registry;
  \<^item> \<open>json_loads\<close> is \<^verbatim>\<open>json.loads(colormap, object_hook=...)\<close> with the hook of
    line 140, which turns every JSON object into a dict from \<^verbatim>\<open>int(k)\<close> to
    \<^verbatim>\<open>parse_color(v)\<close>; it raises \<open>JSONDecodeError\<close> on text that is not JSON, and
    whatever the hook raises;
  \<^item> \<open>is_Sequence\<close> is \<^verbatim>\<open>isinstance(cm, Sequence)\<close>;
  \<^item> \<open>as_intervals\<close> is the comprehension of line 144 over a sequence;
  \<^item> \<open>linear_colormap\<close> is the expansion of lines 153 to 164 by matplotlib and numpy.
\<close>

record 'cm colormap_env =
  cmap_get :: "string \<Rightarrow> error + 'cm"
  json_loads :: "string \<Rightarrow> error + 'cm"
  is_Sequence :: "'cm \<Rightarrow> bool"
  as_intervals :: "'cm \<Rightarrow> error + 'cm"
  linear_colormap :: "'cm \<Rightarrow> error + 'cm"

text \<open>
  The \<^verbatim>\<open>try\<close> block of lines 137 to 149: the text is decoded, a sequence is turned into
  intervals; a \<open>JSONDecodeError\<close> raised in the block becomes the 400 error, any other
  exception leaves the function as it is.
\<close>

definition parse_colormap :: "'cm colormap_env \<Rightarrow> string \<Rightarrow> error + 'cm" where
  "parse_colormap env colormap =
     (case (case json_loads env colormap of
              Inl e \<Rightarrow> Inl e
            | Inr cm \<Rightarrow> if is_Sequence env cm then as_intervals env cm else Inr cm) of
        Inl e \<Rightarrow>
          if e = JSONDecodeError
          then Inl (HTTPException 400 ''Could not parse the colormap value.'')
          else Inl e
      | Inr cm \<Rightarrow> Inr cm)"

text \<open>
  \<^verbatim>\<open>ColorMapParams(colormap_name, colormap, colormap_type)\<close>. A query parameter that
  was not given is \<^verbatim>\<open>None\<close>. A member of an enumeration is true; a string is true
  unless it is empty.
\<close>

definition ColorMapParams ::
  "'cm colormap_env \<Rightarrow> ColorMapName option \<Rightarrow> string option \<Rightarrow> ColorMapType
     \<Rightarrow> error + 'cm option" where
  "ColorMapParams env colormap_name colormap colormap_type =
     (case colormap_name of
        Some n \<Rightarrow>
          (case cmap_get env (member_value n) of Inl e \<Rightarrow> Inl e | Inr cm \<Rightarrow> Inr (Some cm))
      | None \<Rightarrow>
          (case colormap of
             None \<Rightarrow> Inr None
           | Some text \<Rightarrow>
               if text = [] then Inr None
               else
                 (case parse_colormap env text of
                    Inl e \<Rightarrow> Inl e
                  | Inr cm \<Rightarrow>
                      if colormap_type = ColorMapType_linear
                      then (case linear_colormap env cm of
                              Inl e \<Rightarrow> Inl e
                            | Inr expanded \<Rightarrow> Inr (Some expanded))
                      else Inr (Some cm))))"

section \<open>Registered searches\<close>

text \<open>
  The mosaic endpoints and the backend that looks a search up are not among the sources
  at hand; only their tests are. The definitions of this section follow the design
  document (sections 4.2, 4.4, 6 and 7), and the wording of the message follows the
  tests.
\<close>

text \<open>Modelled from the spec: the error taxonomy of section 7.\<close>

datatype api_error =
    NotFound string
  | NoAssetFound
  | InvalidInput
  | UpstreamFailure

text \<open>
  Modelled from the spec: the registry of section 4.2, absent from the sources; it maps
  a search id to the stored query and metadata.
\<close>

type_synonym ('q, 'm) registry = "string \<rightharpoonup> 'q \<times> 'm"

text \<open>
  Modelled from the spec: the message of the NotFound error, "a message naming the
  offending id", in the form the tests expect.
\<close>

definition search_not_found :: "string \<Rightarrow> api_error" where
  "search_not_found searchid =
     NotFound (''SearchId '' @ [CHR 0x60] @ searchid @ [CHR 0x60] @ '' not found'')"

text \<open>
  Modelled from the spec: \<^verbatim>\<open>lookup(searchid) -> RegisteredSearch | NotFound\<close> of section
  4.2, absent from the sources; it fails with NotFound when the id is absent from the
  store.
\<close>

definition lookup :: "('q, 'm) registry \<Rightarrow> string \<Rightarrow> api_error + 'q \<times> 'm" where
  "lookup store searchid =
     (case store searchid of None \<Rightarrow> Inl (search_not_found searchid) | Some r \<Rightarrow> Inr r)"

text \<open>
  Modelled from the spec: the Info operation of section 6, absent from the sources:
  the stored query and metadata, or NotFound.
\<close>

definition info :: "('q, 'm) registry \<Rightarrow> string \<Rightarrow> api_error + 'q \<times> 'm" where
  "info store searchid = lookup store searchid"

text \<open>
  Modelled from the spec: a resolution query of section 3, a point (longitude,
  latitude) or a tile (zoom, column, row, tile matrix set).
\<close>

datatype region = Point real real | Tile nat nat nat string

text \<open>
  Modelled from the spec: \<^verbatim>\<open>resolve\<close> of section 4.4, absent from the sources. The
  registered search is looked up (NotFound if absent); its stored filter, the region
  and the tuning parameters go to the catalog's spatial search, a black box that
  answers with the ordered items or fails; each item is reduced to an asset record, in
  the order the catalog gave.
\<close>

definition resolve ::
  "('q \<Rightarrow> region \<Rightarrow> 't \<Rightarrow> api_error + 'i list) \<Rightarrow> ('i \<Rightarrow> 'a) \<Rightarrow> ('q, 'm) registry
     \<Rightarrow> string \<Rightarrow> region \<Rightarrow> 't \<Rightarrow> api_error + 'a list" where
  "resolve spatial_search asset_record store searchid query_region tuning =
     (case lookup store searchid of
        Inl e \<Rightarrow> Inl e
      | Inr (q, m) \<Rightarrow>
          (case spatial_search q query_region tuning of
             Inl e \<Rightarrow> Inl e
           | Inr items \<Rightarrow> Inr (map asset_record items)))"

text \<open>
  Modelled from the spec: the operation Assets-for-point of section 6, absent from the
  sources: the resolution for a point.
\<close>

definition assets_for_point ::
  "('q \<Rightarrow> region \<Rightarrow> 't \<Rightarrow> api_error + 'i list) \<Rightarrow> ('i \<Rightarrow> 'a) \<Rightarrow> ('q, 'm) registry
     \<Rightarrow> string \<Rightarrow> real \<Rightarrow> real \<Rightarrow> 't \<Rightarrow> api_error + 'a list" where
  "assets_for_point spatial_search asset_record store searchid lng lat tuning =
     resolve spatial_search asset_record store searchid (Point lng lat) tuning"

text \<open>
  Modelled from the spec: the operation Assets-for-tile of section 6, absent from the
  sources: the resolution for a tile.
\<close>

definition assets_for_tile ::
  "('q \<Rightarrow> region \<Rightarrow> 't \<Rightarrow> api_error + 'i list) \<Rightarrow> ('i \<Rightarrow> 'a) \<Rightarrow> ('q, 'm) registry
     \<Rightarrow> string \<Rightarrow> nat \<Rightarrow> nat \<Rightarrow> nat \<Rightarrow> string \<Rightarrow> 't \<Rightarrow> api_error + 'a list" where
  "assets_for_tile spatial_search asset_record store searchid z x y tms tuning =
     resolve spatial_search asset_record store searchid (Tile z x y tms) tuning"

text \<open>
  Modelled from the spec: what the operations Tile and Statistics of section 6, absent
  from the sources, have in common. An unregistered id is NotFound whatever else the request holds (section
  8, "always"); a request without an asset or expression selector is a client input
  error; a resolution that yields nothing is NoAssetFound; otherwise the assets are
  handed, in order, to the renderer or to the statistics, which are external.
\<close>

definition render_assets ::
  "('q \<Rightarrow> region \<Rightarrow> 't \<Rightarrow> api_error + 'i list) \<Rightarrow> ('i \<Rightarrow> 'a) \<Rightarrow> ('a list \<Rightarrow> 'sel \<Rightarrow> 'out)
     \<Rightarrow> ('q, 'm) registry \<Rightarrow> string \<Rightarrow> region \<Rightarrow> 'sel option \<Rightarrow> 't \<Rightarrow> api_error + 'out" where
  "render_assets spatial_search asset_record produce store searchid query_region selector tuning =
     (case lookup store searchid of
        Inl e \<Rightarrow> Inl e
      | Inr r \<Rightarrow>
          (case selector of
             None \<Rightarrow> Inl InvalidInput
           | Some sel \<Rightarrow>
               (case resolve spatial_search asset_record store searchid query_region tuning of
                  Inl e \<Rightarrow> Inl e
                | Inr [] \<Rightarrow> Inl NoAssetFound
                | Inr (a # as) \<Rightarrow> Inr (produce (a # as) sel))))"

text \<open>
  Modelled from the spec: the operation Tile of section 6, absent from the sources; the
  assets of the tile go to the renderer.
\<close>

definition tile ::
  "('q \<Rightarrow> region \<Rightarrow> 't \<Rightarrow> api_error + 'i list) \<Rightarrow> ('i \<Rightarrow> 'a) \<Rightarrow> ('a list \<Rightarrow> 'sel \<Rightarrow> 'out)
     \<Rightarrow> ('q, 'm) registry \<Rightarrow> string \<Rightarrow> nat \<Rightarrow> nat \<Rightarrow> nat \<Rightarrow> string \<Rightarrow> 'sel option \<Rightarrow> 't
     \<Rightarrow> api_error + 'out" where
  "tile spatial_search asset_record render store searchid z x y tms selector tuning =
     render_assets spatial_search asset_record render store searchid (Tile z x y tms) selector tuning"

text \<open>
  Modelled from the spec: the operation Statistics of section 6, absent from the
  sources; the assets of the region go to the aggregation.
\<close>

definition statistics ::
  "('q \<Rightarrow> region \<Rightarrow> 't \<Rightarrow> api_error + 'i list) \<Rightarrow> ('i \<Rightarrow> 'a) \<Rightarrow> ('a list \<Rightarrow> 'sel \<Rightarrow> 'out)
     \<Rightarrow> ('q, 'm) registry \<Rightarrow> string \<Rightarrow> region \<Rightarrow> 'sel option \<Rightarrow> 't \<Rightarrow> api_error + 'out" where
  "statistics spatial_search asset_record aggregate store searchid query_region selector tuning =
     render_assets spatial_search asset_record aggregate store searchid query_region selector tuning"

section \<open>Writing a cloud optimized GeoTIFF\<close>

text \<open>
  A numpy array as \<^verbatim>\<open>cog_utils.py\<close> reads it: its shape, the number of bytes of one
  element, and whether it is a masked array with masked elements. \<^verbatim>\<open>data.size\<close> is
  the product of the shape.
\<close>

record ndarray =
  shape :: "nat list"
  itemsize :: nat
  masked :: bool

definition array_size :: "ndarray \<Rightarrow> nat" where
  "array_size data = prod_list (shape data)"

text \<open>
  \<^verbatim>\<open>is_bigtiff(data)\<close>: the argument is an array, or the path of a raster that
  \<^verbatim>\<open>rasterio\<close> opens and reads (\<open>read\<close>, a parameter). Python's integers do not
  overflow, so the size in bytes is a natural number.
\<close>

datatype raster_arg = Array ndarray | Path string

definition is_bigtiff :: "(string \<Rightarrow> ndarray) \<Rightarrow> raster_arg \<Rightarrow> bool" where
  "is_bigtiff read arg =
     (let data = (case arg of Path p \<Rightarrow> read p | Array a \<Rightarrow> a);
          data_size = array_size data * itemsize data
      in if data_size > 4000000000 then True else False)"

text \<open>
  The part of \<^verbatim>\<open>render_cog\<close> before the file is written: a masked array is filled
  when \<^verbatim>\<open>nodata\<close> is true as a Python value (given and not zero); a two-dimensional
  array gets a leading axis of length one; the profile is updated with the driver,
  the band count \<^verbatim>\<open>data.shape[0]\<close> (an IndexError for an array without axes), the
  compression and the BIGTIFF flag. \<^verbatim>\<open>nodata\<close> is \<open>None\<close> when not given. The
  result is the array that is written and the entries set in the profile, but for the
  dtype, which is the array's.
\<close>

record cog_profile =
  driver :: string
  nodata_value :: "real option"
  band_count :: nat
  tiled :: bool
  compress :: string
  BIGTIFF :: string
  COPY_SRC_OVERVIEWS :: string

definition render_cog_prepare ::
  "ndarray \<Rightarrow> string \<Rightarrow> real option \<Rightarrow> error + ndarray \<times> cog_profile" where
  "render_cog_prepare data compression nodata =
     (let filled = (if masked data \<and> (case nodata of None \<Rightarrow> False | Some v \<Rightarrow> v \<noteq> 0)
                    then data\<lparr>masked := False\<rparr> else data);
          cube = (if length (shape filled) = 2 then filled\<lparr>shape := 1 # shape filled\<rparr> else filled);
          bigtiff = (if is_bigtiff (\<lambda>p. cube) (Array cube) then ''YES'' else ''NO'')
      in case shape cube of
           [] \<Rightarrow> Inl (LibraryError ''IndexError'')
         | bands # rest \<Rightarrow>
             Inr (cube,
                  \<lparr>driver = ''COG'',
                   nodata_value = nodata,
                   band_count = bands,
                   tiled = True,
                   compress = compression,
                   BIGTIFF = bigtiff,
                   COPY_SRC_OVERVIEWS = ''YES''\<rparr>))"

section \<open>Concrete inputs\<close>

text \<open>
  The registration body of the test suite, with an unset bounding box:
  \<^verbatim>\<open>{"collections": ["noaa-emergency-response"], "filter-lang": "cql-json"}\<close> and the
  default metadata \<^verbatim>\<open>{"type": "mosaic"}\<close>.
\<close>

definition register_body :: "pyval model" where
  "register_body =
     [\<lparr>field_name = ''collections'', field_alias = ''collections'',
        field_val = Some (PList [PStr ''noaa-emergency-response''])\<rparr>,
      \<lparr>field_name = ''bbox'', field_alias = ''bbox'', field_val = None\<rparr>,
      \<lparr>field_name = ''filter_lang'', field_alias = ''filter-lang'',
        field_val = Some (PStr ''cql-json'')\<rparr>,
      \<lparr>field_name = ''metadata'', field_alias = ''metadata'',
        field_val = Some (PDict [(''type'', PStr ''mosaic'')])\<rparr>]"

text \<open>
  A catalog holding the given (collection, item id) pairs, behind a pool: the search
  for one item id in one collection answers with the feature collection of the matching
  items, as \<^verbatim>\<open>pgstac.search\<close> does.
\<close>

definition catalog_feature :: "string \<Rightarrow> string \<Rightarrow> pyval" where
  "catalog_feature collection item =
     PDict [(''type'', PStr ''Feature''), (''id'', PStr item), (''collection'', PStr collection)]"

definition catalog_pool :: "(string \<times> string) list \<Rightarrow> pool" where
  "catalog_pool items sql params =
     (case (map_of params ''collections'', map_of params ''ids'') of
        (Some (Some (PList [PStr c])), Some (Some (PList [PStr i]))) \<Rightarrow>
          Inr (Some [(''search'',
            PDict [(''type'', PStr ''FeatureCollection''),
                   (''features'',
                    PList (map (\<lambda>(c', i'). catalog_feature c' i')
                             (filter (\<lambda>(c', i'). c' = c \<and> i' = i) items)))])])
      | _ \<Rightarrow> Inl (LibraryError ''unsupported search''))"

text \<open>The cache of a process that has just started.\<close>

definition empty_cache :: "pyval item_cache" where
  "empty_cache = \<lparr>entries = [], fetches = 0\<rparr>"

text \<open>The catalog of the test suite, reduced to the one item the tests look up.\<close>

definition noaa_catalog :: "(string \<times> string) list" where
  "noaa_catalog = [(''noaa-emergency-response'', ''20200307aC0853900w361030'')]"

text \<open>Cache settings for the examples: room for 512 entries, each kept for 300 seconds.\<close>

definition example_settings :: CacheSettings where
  "example_settings = \<lparr>maxsize = 512, ttl = 300\<rparr>"



text \<open>
  The item of that catalog as the lookup returns it, and the cache as the first lookup
  of it leaves a fresh process at time 0 under these settings.
\<close>

definition noaa_item :: pyval where
  "noaa_item = catalog_feature ''noaa-emergency-response'' ''20200307aC0853900w361030''"

definition noaa_cached :: "pyval item_cache" where
  "noaa_cached =
     \<lparr>entries = [((''noaa-emergency-response'', ''20200307aC0853900w361030''), noaa_item, 300)],
      fetches = 1\<rparr>"

text \<open>
  Colormaps for the examples: a discrete map from values to RGBA colours, or a list of
  intervals with their colours.
\<close>

datatype colormap =
    Discrete "(int \<times> int list) list"
  | Intervals "((int \<times> int) \<times> int list) list"

text \<open>
  A colormap text that is cut off before its end, \<^verbatim>\<open>{"0": {"a": 1}\<close> (the
  character \<open>0x22\<close> is the double quote). It is not JSON.
\<close>

definition truncated_colormap :: string where
  "truncated_colormap =
     ''{'' @ [CHR 0x22] @ ''0'' @ [CHR 0x22] @ '': {'' @ [CHR 0x22] @ ''a'' @ [CHR 0x22] @ '': 1}''"

text \<open>
  An environment for the examples. Its registry holds one colormap, under the name
  \<^verbatim>\<open>blackwhite\<close>. Its decoder answers as \<^verbatim>\<open>json.loads\<close> with the hook of line 140
  does on the texts the examples use: it decodes one document, an interval colormap; on
  the truncated text it raises \<open>ValueError\<close>, since the inner object is complete when
  the decoder hands it to the hook and \<^verbatim>\<open>int("a")\<close> fails there, before the decoder
  reaches the end of the text; on the empty text and on a lone opening brace it raises
  \<open>JSONDecodeError\<close>, as it does on every other text, which the examples do not use.
\<close>

definition blackwhite :: colormap where
  "blackwhite = Discrete [(0, [0, 0, 0, 255]), (255, [255, 255, 255, 255])]"

definition example_env :: "colormap colormap_env" where
  "example_env =
     \<lparr>cmap_get = (\<lambda>n. if n = ''blackwhite'' then Inr blackwhite
                       else Inl (LibraryError ''InvalidColorMapName'')),
      json_loads = (\<lambda>s. if s = ''[[[0, 255], [0, 0, 0, 255]]]''
                         then Inr (Intervals [((0, 255), [0, 0, 0, 255])])
                         else if s = truncated_colormap then Inl ValueError
                         else Inl JSONDecodeError),
      is_Sequence = (\<lambda>cm. case cm of Intervals xs \<Rightarrow> True | Discrete d \<Rightarrow> False),
      as_intervals = Inr,
      linear_colormap = (\<lambda>cm. Inl (LibraryError ''not modelled''))\<rparr>"

text \<open>
  A registry holding the first search the test suite registers, under the id the tests
  expect for it, and a catalog search that finds nothing.
\<close>

definition test_registry :: "(pyval, pyval) registry" where
  "test_registry =
     [''8f5fb37ec266f4b84ec6aa4fe0453c59'' \<mapsto>
        (PDict [(''collections'', PList [PStr ''noaa-emergency-response'']),
                (''filter-lang'', PStr ''cql-json'')],
         PDict [(''type'', PStr ''mosaic'')])]"

definition no_items :: "pyval \<Rightarrow> region \<Rightarrow> unit \<Rightarrow> api_error + pyval list" where
  "no_items q query_region tuning = Inr []"

text \<open>
  A two-dimensional raster of 40000 by 30000 elements of four bytes each, with masked
  elements.
\<close>

definition large_raster :: ndarray where
  "large_raster = \<lparr>shape = [40000, 30000], itemsize = 4, masked = True\<rparr>"




section \<open>Properties of the search parameters\<close>

lemma dict_keys_by_alias:
  "k \<in> fst ` set (model_dict en ex True body) \<Longrightarrow>
     \<exists>f \<in> set body. field_alias f = k \<and> field_name f \<notin> set ex"
  by (auto simp: model_dict_def)

lemma dict_exclude_none_values:
  "None \<notin> snd ` set (model_dict True ex ba body)"
  by (auto simp: model_dict_def Option.is_none_def)

text \<open>
  C2. The dict that \<open>SearchParams\<close> builds from a registration body and passes to the
  search constructor has no \<^verbatim>\<open>metadata\<close> key and no entry whose value is
  \<^verbatim>\<open>None\<close>, whatever the body holds. The only thing asked of the model class is that
  \<^verbatim>\<open>metadata\<close> is not the alias of some other field.
\<close>

theorem SearchParams_excludes_metadata_and_none:
  assumes "\<forall>f \<in> set body. field_alias f = ''metadata'' \<longrightarrow> field_name f = ''metadata''"
  shows "''metadata'' \<notin> fst ` set (SearchParams_search body)
       \<and> None \<notin> snd ` set (SearchParams_search body)
       \<and> (\<forall>s m. SearchParams C body = Inr (s, m) \<longrightarrow> C (SearchParams_search body) = Inr s)"
proof -
  have "''metadata'' \<notin> fst ` set (SearchParams_search body)"
  proof
    assume "''metadata'' \<in> fst ` set (SearchParams_search body)"
    then obtain f where "f \<in> set body" "field_alias f = ''metadata''" "field_name f \<notin> set [''metadata'']"
      unfolding SearchParams_search_def using dict_keys_by_alias by blast
    with assms show False by auto
  qed
  moreover have "None \<notin> snd ` set (SearchParams_search body)"
    unfolding SearchParams_search_def by (rule dict_exclude_none_values)
  moreover have "\<forall>s m. SearchParams C body = Inr (s, m) \<longrightarrow> C (SearchParams_search body) = Inr s"
    by (auto simp: SearchParams_def split: sum.splits)
  ultimately show ?thesis by blast
qed

theorem SearchParams_excludes_metadata_and_none_witness:
  "SearchParams_search register_body =
     [(''collections'', Some (PList [PStr ''noaa-emergency-response''])),
      (''filter-lang'', Some (PStr ''cql-json''))]
   \<and> ''metadata'' \<notin> fst ` set (SearchParams_search register_body)
   \<and> None \<notin> snd ` set (SearchParams_search register_body)
   \<and> SearchParams Inr register_body =
       Inr (SearchParams_search register_body, Some (PDict [(''type'', PStr ''mosaic'')]))"
proof -
  have h: "\<forall>f \<in> set register_body. field_alias f = ''metadata'' \<longrightarrow> field_name f = ''metadata''"
    by (simp add: register_body_def)
  have v: "SearchParams_search register_body =
     [(''collections'', Some (PList [PStr ''noaa-emergency-response''])),
      (''filter-lang'', Some (PStr ''cql-json''))]"
    by (simp add: SearchParams_search_def model_dict_def register_body_def Option.is_none_def)
  have m: "model_getattr register_body ''metadata'' = Inr (Some (PDict [(''type'', PStr ''mosaic'')]))"
    by (simp add: model_getattr_def register_body_def)
  have r: "SearchParams Inr register_body =
       Inr (SearchParams_search register_body, Some (PDict [(''type'', PStr ''mosaic'')]))"
    by (simp add: SearchParams_def m)
  from SearchParams_excludes_metadata_and_none [OF h, of Inr] v r show ?thesis
    by blast
qed

section \<open>Properties of the single-item lookup\<close>

lemma map_of_key_iff: "k \<in> fst ` set d \<longleftrightarrow> map_of d k \<noteq> None"
  by (simp add: map_of_eq_None_iff)

lemma get_stac_item_body_response:
  assumes "pool ''SELECT * FROM pgstac.search(%s) LIMIT 1;''
             (model_dict True [] True (item_search collection item)) = Inr (Some fetched)"
      and "map_of fetched ''search'' = Some resp"
  shows "get_stac_item_body from_dict pool collection item =
     (if truthy resp then
        (case py_contains ''features'' resp of
           Inl e \<Rightarrow> Inl e
         | Inr False \<Rightarrow> Inl (item_not_found collection item)
         | Inr True \<Rightarrow>
             (case py_getitem_str resp ''features'' of
                Inl e \<Rightarrow> Inl e
              | Inr features \<Rightarrow>
                  (case py_len features of
                     Inl e \<Rightarrow> Inl e
                   | Inr n \<Rightarrow>
                       if n = 1 then
                         (case py_getitem_0 features of
                            Inl e \<Rightarrow> Inl e
                          | Inr feature \<Rightarrow>
                              (case from_dict feature of
                                 Inl msg \<Rightarrow> Inl (LibraryError msg)
                               | Inr it \<Rightarrow> Inr it))
                       else Inl (item_not_found collection item))))
      else Inl (item_not_found collection item))"
  using assms by (simp add: get_stac_item_body_def)

text \<open>
  C4. Let the catalog answer the search for \<open>item\<close> in \<open>collection\<close> with the response
  \<open>resp\<close>. The lookup raises the 404 error, whose detail names the item and the
  collection, when the response is empty (\<^verbatim>\<open>None\<close> or an empty object), when it has no
  \<^verbatim>\<open>features\<close> member, and when its feature list does not have exactly one element.
  When the list has exactly one feature the lookup does not raise that error: it
  returns what pystac builds from that feature. This is the body of the function; the
  decorated function returns the result of the body whenever the cache holds no live
  entry for the collection and item, which is when the catalog is asked at all.
\<close>

theorem get_stac_item_not_found_unless_one_feature:
  assumes "pool ''SELECT * FROM pgstac.search(%s) LIMIT 1;''
             (model_dict True [] True (item_search collection item)) = Inr (Some fetched)"
      and "map_of fetched ''search'' = Some resp"
  shows "(resp = PNone \<or> resp = PDict [] \<longrightarrow>
            get_stac_item_body from_dict pool collection item = Inl (item_not_found collection item))
       \<and> (\<forall>d. resp = PDict d \<and> map_of d ''features'' = None \<longrightarrow>
            get_stac_item_body from_dict pool collection item = Inl (item_not_found collection item))
       \<and> (\<forall>d fs. resp = PDict d \<and> map_of d ''features'' = Some (PList fs) \<and> length fs \<noteq> 1 \<longrightarrow>
            get_stac_item_body from_dict pool collection item = Inl (item_not_found collection item))
       \<and> (\<forall>d f. resp = PDict d \<and> map_of d ''features'' = Some (PList [f]) \<longrightarrow>
            get_stac_item_body from_dict pool collection item =
              (case from_dict f of Inl msg \<Rightarrow> Inl (LibraryError msg) | Inr it \<Rightarrow> Inr it)
            \<and> get_stac_item_body from_dict pool collection item \<noteq> Inl (item_not_found collection item))
       \<and> item_not_found collection item =
            HTTPException 404 (''No item '' @ [CHR 0x27] @ item @ [CHR 0x27] @ '' found in ''
               @ [CHR 0x27] @ collection @ [CHR 0x27] @ '' collection'')
       \<and> (fst (TTLCache_getitem now (collection, item) (entries s)) = None \<longrightarrow>
            fst (get_stac_item cfg from_dict now s pool collection item)
              = get_stac_item_body from_dict pool collection item)"
proof -
  have body: "get_stac_item_body from_dict pool collection item =
     (if truthy resp then
        (case py_contains ''features'' resp of
           Inl e \<Rightarrow> Inl e
         | Inr False \<Rightarrow> Inl (item_not_found collection item)
         | Inr True \<Rightarrow>
             (case py_getitem_str resp ''features'' of
                Inl e \<Rightarrow> Inl e
              | Inr features \<Rightarrow>
                  (case py_len features of
                     Inl e \<Rightarrow> Inl e
                   | Inr n \<Rightarrow>
                       if n = 1 then
                         (case py_getitem_0 features of
                            Inl e \<Rightarrow> Inl e
                          | Inr feature \<Rightarrow>
                              (case from_dict feature of
                                 Inl msg \<Rightarrow> Inl (LibraryError msg)
                               | Inr it \<Rightarrow> Inr it))
                       else Inl (item_not_found collection item))))
      else Inl (item_not_found collection item))"
    using assms by (rule get_stac_item_body_response)
  have a: "resp = PNone \<or> resp = PDict [] \<longrightarrow>
            get_stac_item_body from_dict pool collection item = Inl (item_not_found collection item)"
    using body by auto
  have b: "\<forall>d. resp = PDict d \<and> map_of d ''features'' = None \<longrightarrow>
            get_stac_item_body from_dict pool collection item = Inl (item_not_found collection item)"
    using body by (auto simp: map_of_key_iff)
  have c: "\<forall>d fs. resp = PDict d \<and> map_of d ''features'' = Some (PList fs) \<and> length fs \<noteq> 1 \<longrightarrow>
            get_stac_item_body from_dict pool collection item = Inl (item_not_found collection item)"
    using body by (auto simp: map_of_key_iff)
  have d: "\<forall>d f. resp = PDict d \<and> map_of d ''features'' = Some (PList [f]) \<longrightarrow>
            get_stac_item_body from_dict pool collection item =
              (case from_dict f of Inl msg \<Rightarrow> Inl (LibraryError msg) | Inr it \<Rightarrow> Inr it)
            \<and> get_stac_item_body from_dict pool collection item \<noteq> Inl (item_not_found collection item)"
    using body by (auto simp: map_of_key_iff item_not_found_def split: sum.splits)
  have e: "item_not_found collection item =
            HTTPException 404 (''No item '' @ [CHR 0x27] @ item @ [CHR 0x27] @ '' found in ''
               @ [CHR 0x27] @ collection @ [CHR 0x27] @ '' collection'')"
    by (simp add: item_not_found_def)
  have f: "fst (TTLCache_getitem now (collection, item) (entries s)) = None \<longrightarrow>
            fst (get_stac_item cfg from_dict now s pool collection item)
              = get_stac_item_body from_dict pool collection item"
    by (auto simp: get_stac_item_def cache_key_def Let_def
          split: prod.splits sum.splits option.splits)
  from a b c d e f show ?thesis by blast
qed

lemma catalog_pool_item_search:
  "catalog_pool items sql (model_dict True [] True (item_search c i)) =
     Inr (Some [(''search'',
            PDict [(''type'', PStr ''FeatureCollection''),
                   (''features'',
                    PList (map (\<lambda>(c', i'). catalog_feature c' i')
                             (filter (\<lambda>(c', i'). c' = c \<and> i' = i) items)))])])"
  by (simp add: catalog_pool_def model_dict_def item_search_def Option.is_none_def)

theorem get_stac_item_not_found_unless_one_feature_witness:
  "get_stac_item_body Inr (catalog_pool noaa_catalog)
      ''noaa-emergency-response'' ''20200307aC0853900w361030''
     = Inr (catalog_feature ''noaa-emergency-response'' ''20200307aC0853900w361030'')
   \<and> get_stac_item_body Inr (catalog_pool noaa_catalog) ''noaa-emergency-response'' ''nope''
     = Inl (HTTPException 404 (''No item '' @ [CHR 0x27] @ ''nope'' @ [CHR 0x27] @ '' found in ''
               @ [CHR 0x27] @ ''noaa-emergency-response'' @ [CHR 0x27] @ '' collection''))"
proof -
  let ?c = "''noaa-emergency-response''"
  let ?i = "''20200307aC0853900w361030''"
  let ?sql = "''SELECT * FROM pgstac.search(%s) LIMIT 1;''"
  let ?one = "PDict [(''type'', PStr ''FeatureCollection''),
                     (''features'', PList [catalog_feature ?c ?i])]"
  let ?none = "PDict [(''type'', PStr ''FeatureCollection''), (''features'', PList [])]"
  have p1: "catalog_pool noaa_catalog ?sql (model_dict True [] True (item_search ?c ?i))
              = Inr (Some [(''search'', ?one)])"
    by (simp add: catalog_pool_item_search noaa_catalog_def)
  have p2: "catalog_pool noaa_catalog ?sql (model_dict True [] True (item_search ?c ''nope''))
              = Inr (Some [(''search'', ?none)])"
    by (simp add: catalog_pool_item_search noaa_catalog_def)
  have m1: "map_of [(''search'', ?one)] ''search'' = Some ?one" by simp
  have m2: "map_of [(''search'', ?none)] ''search'' = Some ?none" by simp
  have f1: "map_of [(''type'', PStr ''FeatureCollection''),
                     (''features'', PList [catalog_feature ?c ?i])] ''features''
              = Some (PList [catalog_feature ?c ?i])" by simp
  have f2: "map_of [(''type'', PStr ''FeatureCollection''), (''features'', PList [])] ''features''
              = Some (PList [])" by simp
  from get_stac_item_not_found_unless_one_feature
         [of "catalog_pool noaa_catalog" ?c ?i _ _ Inr, OF p1 m1] f1
  have r1: "get_stac_item_body Inr (catalog_pool noaa_catalog) ?c ?i = Inr (catalog_feature ?c ?i)"
    by simp
  from get_stac_item_not_found_unless_one_feature
         [of "catalog_pool noaa_catalog" ?c "''nope''" _ _ Inr, OF p2 m2] f2
  have r2: "get_stac_item_body Inr (catalog_pool noaa_catalog) ?c ''nope''
              = Inl (item_not_found ?c ''nope'')"
    by simp
  from r1 r2 show ?thesis by (simp add: item_not_found_def)
qed

section \<open>Properties of the item cache\<close>

lemma map_of_moved_to_end:
  "map_of (filter (\<lambda>e. fst e \<noteq> k) es @ [(k, x)]) k = Some x"
proof -
  have "k \<notin> fst ` set (filter (\<lambda>e. fst e \<noteq> k) es)" by auto
  then have "map_of (filter (\<lambda>e. fst e \<noteq> k) es) k = None"
    by (simp add: map_of_eq_None_iff)
  then show ?thesis by (simp add: map_add_def)
qed

lemma TTLCache_getitem_hit:
  assumes "map_of es k = Some (v, expires)" and "now < expires"
  shows "TTLCache_getitem now k es = (Some v, filter (\<lambda>e. fst e \<noteq> k) es @ [(k, v, expires)])"
  using assms by (simp add: TTLCache_getitem_def)

lemma TTLCache_getitem_expired:
  assumes "map_of es k = Some (v, expires)" and "\<not> now < expires"
  shows "fst (TTLCache_getitem now k es) = None"
  using assms by (simp add: TTLCache_getitem_def)


lemma TTLCache_setitem_stores:
  assumes "1 \<le> maxsize cfg"
  shows "\<exists>es'. TTLCache_setitem cfg now k v es = Inr es' \<and> map_of es' k = Some (v, now + ttl cfg)"
  using assms
  by (simp add: TTLCache_setitem_def Let_def map_of_moved_to_end del: map_of_append)

text \<open>A call that finds a live entry returns it, whatever the pool, and fetches nothing.\<close>

lemma get_stac_item_hit:
  assumes "map_of (entries s) (collection, item) = Some (it, expires)" and "now < expires"
  shows "get_stac_item cfg from_dict now s pool collection item =
           (Inr it, s\<lparr>entries := filter (\<lambda>e. fst e \<noteq> (collection, item)) (entries s)
                                    @ [((collection, item), it, expires)]\<rparr>)"
  using assms by (simp add: get_stac_item_def cache_key_def TTLCache_getitem_hit Let_def)

text \<open>A call that finds no live entry runs the body once.\<close>

lemma get_stac_item_miss:
  assumes "fst (TTLCache_getitem now (collection, item) (entries s)) = None"
  shows "fst (get_stac_item cfg from_dict now s pool collection item)
           = get_stac_item_body from_dict pool collection item
       \<and> fetches (snd (get_stac_item cfg from_dict now s pool collection item)) = Suc (fetches s)"
  using assms
  by (auto simp: get_stac_item_def cache_key_def Let_def split: prod.splits sum.splits option.splits)

text \<open>A call that fetched with success leaves the item stored for \<open>ttl\<close>.\<close>

lemma get_stac_item_fetch_stores:
  assumes "get_stac_item cfg from_dict t0 s pool collection item = (Inr it, s1)"
      and "fetches s1 = Suc (fetches s)"
      and "1 \<le> maxsize cfg"
  shows "map_of (entries s1) (collection, item) = Some (it, t0 + ttl cfg)"
proof -
  obtain hit es where g: "TTLCache_getitem t0 (collection, item) (entries s) = (hit, es)"
    by (cases "TTLCache_getitem t0 (collection, item) (entries s)")
  from TTLCache_setitem_stores [OF assms(3), of t0 "(collection, item)" it es]
  obtain es' where st: "TTLCache_setitem cfg t0 (collection, item) it es = Inr es'"
      and m: "map_of es' (collection, item) = Some (it, t0 + ttl cfg)"
    by blast
  show ?thesis
  proof (cases hit)
    case (Some v)
    with g assms(1) have "fetches s1 = fetches s"
      by (auto simp: get_stac_item_def cache_key_def)
    with assms(2) show ?thesis by simp
  next
    case None
    with g assms(1) st m show ?thesis
      by (auto simp: get_stac_item_def cache_key_def split: sum.splits)
  qed
qed




lemma filter_other_key:
  assumes "kk \<in> fst ` set es"
  shows "length (filter (\<lambda>e. fst e \<noteq> kk) es) < length es"
proof -
  from assms obtain e where "e \<in> set es" and "\<not> fst e \<noteq> kk" by auto
  then show ?thesis by (rule length_filter_less)
qed

lemma distinct_moved:
  assumes "distinct (map fst es)"
  shows "distinct (map fst (filter (\<lambda>e. fst e \<noteq> kk) es @ [(kk, x)]))"
  using assms by (auto simp: distinct_map_filter)




lemma TTLCache_evict_fitting:
  "length es \<le> bound \<Longrightarrow> TTLCache_evict bound es = (if length es = bound then tl es else es)"
  by (cases es; cases "tl es") auto




lemma moved_fits:
  assumes "distinct (map fst es)" and "length es \<le> bound" and "kk \<in> fst ` set es"
  shows "distinct (map fst (filter (\<lambda>e. fst e \<noteq> kk) es @ [(kk, x)]))
       \<and> length (filter (\<lambda>e. fst e \<noteq> kk) es @ [(kk, x)]) \<le> bound"
  using distinct_moved [OF assms(1)] filter_other_key [OF assms(3)] assms(2) by simp

lemma TTLCache_getitem_fits:
  assumes "distinct (map fst es)" and "length es \<le> bound"
  shows "distinct (map fst (snd (TTLCache_getitem now kk es)))
       \<and> length (snd (TTLCache_getitem now kk es)) \<le> bound"
proof (cases "map_of es kk")
  case None
  with assms show ?thesis by (simp add: TTLCache_getitem_def)
next
  case (Some ve)
  then have "kk \<in> fst ` set es" by (auto dest: map_of_SomeD intro: rev_image_eqI)
  from moved_fits [OF assms this] Some show ?thesis
    by (cases ve) (simp add: TTLCache_getitem_def)
qed

lemma TTLCache_setitem_fits:
  assumes "distinct (map fst es)" and "length es \<le> maxsize cfg" and "1 \<le> maxsize cfg"
  shows "\<exists>es'. TTLCache_setitem cfg now k v es = Inr es'
           \<and> entry_kept k v (now + ttl cfg) others (maxsize cfg) es'"
proof -
  let ?live = "TTLCache_expire now es"
  let ?new = "(k, v, now + ttl cfg)"
  have d: "distinct (map fst ?live)"
    using assms(1) by (simp add: TTLCache_expire_def distinct_map_filter)
  have len: "length ?live \<le> maxsize cfg"
    using assms(2) by (simp add: TTLCache_expire_def le_trans [OF length_filter_le])
  let ?room = "if k \<in> fst ` set ?live then ?live else TTLCache_evict (maxsize cfg) ?live"
  have stored: "TTLCache_setitem cfg now k v es = Inr (filter (\<lambda>e. fst e \<noteq> k) ?room @ [?new])"
    using assms(3) by (simp add: TTLCache_setitem_def Let_def)
  have fits: "distinct (map fst (filter (\<lambda>e. fst e \<noteq> k) ?room @ [?new]))
       \<and> length (filter (\<lambda>e. fst e \<noteq> k) ?room @ [?new]) \<le> maxsize cfg"
  proof (cases "k \<in> fst ` set ?live")
    case True
    from moved_fits [OF d len True] True show ?thesis by simp
  next
    case False
    have evicted: "TTLCache_evict (maxsize cfg) ?live
                     = (if length ?live = maxsize cfg then tl ?live else ?live)"
      using len by (rule TTLCache_evict_fitting)
    have "distinct (map fst (TTLCache_evict (maxsize cfg) ?live))"
      using d evicted by (simp add: distinct_tl map_tl)
    then have "distinct (map fst (filter (\<lambda>e. fst e \<noteq> k)
                 (TTLCache_evict (maxsize cfg) ?live) @ [?new]))"
      by (rule distinct_moved)
    moreover have "length (TTLCache_evict (maxsize cfg) ?live) < maxsize cfg"
    proof (cases "length ?live = maxsize cfg")
      case True
      with evicted have "length (TTLCache_evict (maxsize cfg) ?live) = length ?live - 1"
        by simp
      with True assms(3) show ?thesis by simp
    next
      case False
      with evicted len show ?thesis by simp
    qed
    moreover have "length (filter (\<lambda>e. fst e \<noteq> k) (TTLCache_evict (maxsize cfg) ?live))
                     \<le> length (TTLCache_evict (maxsize cfg) ?live)"
      by (rule length_filter_le)
    ultimately have "distinct (map fst (filter (\<lambda>e. fst e \<noteq> k)
                 (TTLCache_evict (maxsize cfg) ?live) @ [?new]))
        \<and> Suc (length (filter (\<lambda>e. fst e \<noteq> k) (TTLCache_evict (maxsize cfg) ?live)))
              \<le> maxsize cfg"
      by linarith
    then have "distinct (map fst (filter (\<lambda>e. fst e \<noteq> k)
                 (TTLCache_evict (maxsize cfg) ?live) @ [?new]))
        \<and> length (filter (\<lambda>e. fst e \<noteq> k)
                 (TTLCache_evict (maxsize cfg) ?live) @ [?new]) \<le> maxsize cfg"
      by simp
    then show ?thesis using False by (simp only: if_False)
  qed
  have "filter (\<lambda>e. fst e \<noteq> k) ?room @ [?new] = filter (\<lambda>e. fst e \<noteq> k) ?room @ ?new # []"
    by simp
  moreover have "fst ` set ([] :: ('a \<times> 'b \<times> real) list) \<subseteq> others" by simp
  ultimately have "entry_kept k v (now + ttl cfg) others (maxsize cfg)
                     (filter (\<lambda>e. fst e \<noteq> k) ?room @ [?new])"
    unfolding entry_kept_def using fits by blast
  with stored show ?thesis by blast
qed

text \<open>The entries stay distinct and within the bound, whatever is called.\<close>

lemma get_stac_item_fits:
  assumes "distinct (map fst (entries s))" and "length (entries s) \<le> maxsize cfg"
  shows "distinct (map fst (entries (snd (get_stac_item cfg from_dict now s pool collection item))))
       \<and> length (entries (snd (get_stac_item cfg from_dict now s pool collection item)))
           \<le> maxsize cfg"
proof -
  let ?k = "(collection, item)"
  obtain hit es where g: "TTLCache_getitem now ?k (entries s) = (hit, es)"
    by (cases "TTLCache_getitem now ?k (entries s)")
  from TTLCache_getitem_fits [OF assms, of now ?k] g
  have es: "distinct (map fst es)" "length es \<le> maxsize cfg" by simp_all
  have live: "distinct (map fst (TTLCache_expire now es))
              \<and> length (TTLCache_expire now es) \<le> maxsize cfg"
    using es by (simp add: TTLCache_expire_def distinct_map_filter le_trans [OF length_filter_le])
  show ?thesis
  proof (cases hit)
    case (Some v)
    with g es show ?thesis by (simp add: get_stac_item_def cache_key_def)
  next
    case None
    show ?thesis
    proof (cases "get_stac_item_body from_dict pool collection item")
      case (Inl e)
      with None g es show ?thesis by (simp add: get_stac_item_def cache_key_def)
    next
      case (Inr v)
      show ?thesis
      proof (cases "1 \<le> maxsize cfg")
        case True
        from TTLCache_setitem_fits [OF es True, of now ?k v "{}"]
        obtain es' where "TTLCache_setitem cfg now ?k v es = Inr es'"
          and "distinct (map fst es')" "length es' \<le> maxsize cfg"
          by (auto simp: entry_kept_def)
        with None g Inr show ?thesis by (simp add: get_stac_item_def cache_key_def)
      next
        case False
        then have "TTLCache_setitem cfg now ?k v es = Inl ValueError"
          by (simp add: TTLCache_setitem_def Let_def)
        with None g Inr live show ?thesis by (simp add: get_stac_item_def cache_key_def)
      qed
    qed
  qed
qed







text \<open>The fixtures, evaluated.\<close>

lemma get_stac_item_body_catalog_pool:
  "get_stac_item_body Inr (catalog_pool items) c i =
     (case filter (\<lambda>(c', i'). c' = c \<and> i' = i) items of
        [x] \<Rightarrow> Inr (catalog_feature c i)
      | _ \<Rightarrow> Inl (item_not_found c i))"
proof -
  let ?found = "filter (\<lambda>(c', i'). c' = c \<and> i' = i) items"
  have same: "\<And>x. ?found = [x] \<Longrightarrow> x = (c, i)"
  proof -
    fix x assume "?found = [x]"
    then have "x \<in> set ?found" by simp
    then show "x = (c, i)" by auto
  qed

  show ?thesis
    by (cases ?found rule: list.exhaust; cases "tl ?found")
       (auto simp: get_stac_item_body_def catalog_pool_item_search dest: same)
qed

lemma noaa_first_lookup:
  "get_stac_item example_settings Inr 0 empty_cache (catalog_pool noaa_catalog)
      ''noaa-emergency-response'' ''20200307aC0853900w361030'' = (Inr noaa_item, noaa_cached)"
  by (simp add: get_stac_item_def cache_key_def TTLCache_getitem_def empty_cache_def
        get_stac_item_body_catalog_pool noaa_catalog_def TTLCache_setitem_def
        TTLCache_expire_def example_settings_def noaa_item_def noaa_cached_def)

lemma noaa_cached_lookup:
  "t < 300 \<Longrightarrow> get_stac_item example_settings Inr t noaa_cached pool
      ''noaa-emergency-response'' ''20200307aC0853900w361030'' = (Inr noaa_item, noaa_cached)"
  by (simp add: get_stac_item_def cache_key_def TTLCache_getitem_def noaa_cached_def)






text \<open>
  C10. The key of the cache is made of the collection and the item only. After a call
  with pool \<open>p1\<close> at time \<open>t0\<close> that fetched the item and stored it, a call for the same
  collection and item with any other pool \<open>p2\<close> before \<open>t0 + ttl\<close> returns the same
  item, sends no fetch, and is in result and state the call that \<open>p1\<close> would have made.
\<close>

theorem get_stac_item_hit_ignores_pool:
  assumes "get_stac_item cfg from_dict t0 s p1 collection item = (Inr it, s1)"
      and "fetches s1 = Suc (fetches s)"
      and "1 \<le> maxsize cfg"
      and "t < t0 + ttl cfg"
  shows "cache_key p2 collection item = cache_key p1 collection item
       \<and> fst (get_stac_item cfg from_dict t s1 p2 collection item) = Inr it
       \<and> fetches (snd (get_stac_item cfg from_dict t s1 p2 collection item)) = fetches s1
       \<and> get_stac_item cfg from_dict t s1 p2 collection item
           = get_stac_item cfg from_dict t s1 p1 collection item"
proof -
  have stored: "map_of (entries s1) (collection, item) = Some (it, t0 + ttl cfg)"
    using assms(1,2,3) by (rule get_stac_item_fetch_stores)
  note hit = get_stac_item_hit [OF stored assms(4)]
  show ?thesis by (simp add: hit cache_key_def)
qed

theorem get_stac_item_hit_ignores_pool_witness:
  "get_stac_item example_settings Inr 0 empty_cache (catalog_pool noaa_catalog)
      ''noaa-emergency-response'' ''20200307aC0853900w361030'' = (Inr noaa_item, noaa_cached)
   \<and> get_stac_item example_settings Inr 100 noaa_cached (catalog_pool [])
      ''noaa-emergency-response'' ''20200307aC0853900w361030'' = (Inr noaa_item, noaa_cached)
   \<and> get_stac_item_body Inr (catalog_pool [])
      ''noaa-emergency-response'' ''20200307aC0853900w361030''
       = Inl (item_not_found ''noaa-emergency-response'' ''20200307aC0853900w361030'')"
proof -
  let ?c = "''noaa-emergency-response''"
  let ?i = "''20200307aC0853900w361030''"
  let ?P = "catalog_pool noaa_catalog"
  have fetched: "fetches noaa_cached = Suc (fetches empty_cache)"
    by (simp add: empty_cache_def noaa_cached_def)
  have enabled: "1 \<le> maxsize example_settings"
    by (simp add: example_settings_def)
  have window: "100 < 0 + ttl example_settings"
    by (simp add: example_settings_def)
  from get_stac_item_hit_ignores_pool
         [of example_settings Inr 0 empty_cache ?P ?c ?i noaa_item noaa_cached 100 "catalog_pool []",
          OF noaa_first_lookup fetched enabled window]
  have same: "get_stac_item example_settings Inr 100 noaa_cached (catalog_pool []) ?c ?i
          = get_stac_item example_settings Inr 100 noaa_cached ?P ?c ?i"
    by simp
  have "get_stac_item example_settings Inr 100 noaa_cached ?P ?c ?i = (Inr noaa_item, noaa_cached)"
    by (simp add: noaa_cached_lookup)
  with same noaa_first_lookup show ?thesis
    by (simp add: get_stac_item_body_catalog_pool)
qed

section \<open>Properties of the colormap parameters\<close>

text \<open>
  C6. A colormap name takes precedence: when \<open>colormap_name\<close> is given, the result is
  what the registry holds under that name, whatever the explicit colormap text and the
  colormap type are (the text is not even decoded). When neither a name nor a text is
  given, the result is \<^verbatim>\<open>None\<close>.
\<close>

theorem ColorMapParams_name_takes_precedence:
  "ColorMapParams env (Some n) colormap colormap_type =
     (case cmap_get env (member_value n) of Inl e \<Rightarrow> Inl e | Inr cm \<Rightarrow> Inr (Some cm))
   \<and> ColorMapParams env (Some n) colormap colormap_type = ColorMapParams env (Some n) None t
   \<and> ColorMapParams env None None colormap_type = Inr None"
  by (simp add: ColorMapParams_def)

text \<open>
  What the code does by design around the decoding: an empty colormap text counts as no
  colormap at all, and a text on which the decoder raises \<open>JSONDecodeError\<close> gives the
  error 400.
\<close>

lemma ColorMapParams_empty_text:
  "ColorMapParams env None (Some []) colormap_type = Inr None"
  by (simp add: ColorMapParams_def)

lemma ColorMapParams_decode_error:
  assumes "colormap \<noteq> []"
      and "json_loads env colormap = Inl JSONDecodeError"
  shows "ColorMapParams env None (Some colormap) colormap_type
           = Inl (HTTPException 400 ''Could not parse the colormap value.'')"
  using assms by (simp add: ColorMapParams_def parse_colormap_def)

lemma ColorMapParams_guards_example:
  "json_loads example_env [] = Inl JSONDecodeError
   \<and> ColorMapParams example_env None (Some []) ColorMapType_explicit = Inr None
   \<and> json_loads example_env ''{'' = Inl JSONDecodeError
   \<and> ColorMapParams example_env None (Some ''{'') ColorMapType_explicit
        = Inl (HTTPException 400 ''Could not parse the colormap value.'')
   \<and> ColorMapParams example_env (Some (ColorMapName ''blackwhite'')) (Some ''{'')
        ColorMapType_explicit = Inr (Some blackwhite)"
  by (simp add: ColorMapParams_def parse_colormap_def example_env_def truncated_colormap_def)

text \<open>
  C7. The code means to answer a colormap text that cannot be parsed with the error 400
  "Could not parse the colormap value.", but its \<^verbatim>\<open>except\<close> clause catches the
  decoder's \<open>JSONDecodeError\<close> only. When decoding a text that is not empty, given
  without a colormap name, raises another exception, \<open>ColorMapParams\<close> raises that
  exception and not the error 400. The hook of line 140 raises \<open>ValueError\<close> on an
  object whose key is not an integer, also inside a text that is not JSON: so the
  truncated text \<^verbatim>\<open>{"0": {"a": 1}\<close> ends in a \<open>ValueError\<close>.
\<close>

theorem ColorMapParams_uncaught_decoding_error:
  assumes "colormap \<noteq> []"
      and "json_loads env colormap = Inl ValueError"
  shows "ColorMapParams env None (Some colormap) colormap_type = Inl ValueError
       \<and> ColorMapParams env None (Some colormap) colormap_type
           \<noteq> Inl (HTTPException 400 ''Could not parse the colormap value.'')"
  using assms by (simp add: ColorMapParams_def parse_colormap_def)

theorem ColorMapParams_uncaught_decoding_error_witness:
  "ColorMapParams example_env None (Some truncated_colormap) ColorMapType_explicit
     = Inl ValueError"
proof -
  have nonempty: "truncated_colormap \<noteq> []"
    by (simp add: truncated_colormap_def)
  have raises: "json_loads example_env truncated_colormap = Inl ValueError"
    by (simp add: example_env_def truncated_colormap_def)
  from ColorMapParams_uncaught_decoding_error [OF nonempty raises]
  show ?thesis by simp
qed

section \<open>Properties of the operations on registered searches\<close>

text \<open>
  C9. On an id that is not registered, the info lookup, the assets for a point, the
  assets for a tile, the tile rendering and the statistics all fail with NotFound, and
  the message is "SearchId `id` not found" with the id that was asked for.
\<close>

theorem unregistered_searchid_not_found:
  assumes "store searchid = None"
  shows "info store searchid = Inl (search_not_found searchid)
       \<and> assets_for_point spatial_search asset_record store searchid lng lat tuning
           = Inl (search_not_found searchid)
       \<and> assets_for_tile spatial_search asset_record store searchid z x y tms tuning
           = Inl (search_not_found searchid)
       \<and> tile spatial_search asset_record render store searchid z x y tms selector tuning
           = Inl (search_not_found searchid)
       \<and> statistics spatial_search asset_record aggregate store searchid query_region selector tuning
           = Inl (search_not_found searchid)
       \<and> search_not_found searchid
           = NotFound (''SearchId '' @ [CHR 0x60] @ searchid @ [CHR 0x60] @ '' not found'')"
  using assms
  by (simp add: lookup_def info_def assets_for_point_def assets_for_tile_def tile_def statistics_def
        render_assets_def resolve_def search_not_found_def)

theorem unregistered_searchid_not_found_witness:
  "info test_registry ''aaaaaaaaaaaaaaaaaaaaaaaaaaaaaaaa''
     = Inl (NotFound (''SearchId '' @ [CHR 0x60] @ ''aaaaaaaaaaaaaaaaaaaaaaaaaaaaaaaa''
                        @ [CHR 0x60] @ '' not found''))
   \<and> assets_for_point no_items id test_registry ''aaaaaaaaaaaaaaaaaaaaaaaaaaaaaaaa''
        (-85.5) 36.1624 ()
     = Inl (NotFound (''SearchId '' @ [CHR 0x60] @ ''aaaaaaaaaaaaaaaaaaaaaaaaaaaaaaaa''
                        @ [CHR 0x60] @ '' not found''))
   \<and> tile no_items id (\<lambda>assets sel. assets) test_registry ''aaaaaaaaaaaaaaaaaaaaaaaaaaaaaaaa''
        0 0 0 ''WebMercatorQuad'' (Some ''cog'') ()
     = Inl (NotFound (''SearchId '' @ [CHR 0x60] @ ''aaaaaaaaaaaaaaaaaaaaaaaaaaaaaaaa''
                        @ [CHR 0x60] @ '' not found''))
   \<and> info test_registry ''8f5fb37ec266f4b84ec6aa4fe0453c59''
     = Inr (PDict [(''collections'', PList [PStr ''noaa-emergency-response'']),
                   (''filter-lang'', PStr ''cql-json'')],
            PDict [(''type'', PStr ''mosaic'')])"
proof -
  have absent: "test_registry ''aaaaaaaaaaaaaaaaaaaaaaaaaaaaaaaa'' = None"
    by (simp add: test_registry_def)
  have registered: "info test_registry ''8f5fb37ec266f4b84ec6aa4fe0453c59''
     = Inr (PDict [(''collections'', PList [PStr ''noaa-emergency-response'']),
                   (''filter-lang'', PStr ''cql-json'')],
            PDict [(''type'', PStr ''mosaic'')])"
    by (simp add: info_def lookup_def test_registry_def)
  from unregistered_searchid_not_found
         [where store = test_registry and searchid = "''aaaaaaaaaaaaaaaaaaaaaaaaaaaaaaaa''"
            and spatial_search = no_items and asset_record = id and tuning = "()"
            and lng = "-85.5" and lat = "36.1624" and z = 0 and x = 0 and y = 0
            and tms = "''WebMercatorQuad''" and render = "\<lambda>assets sel. assets"
            and selector = "Some ''cog''" and aggregate = "\<lambda>assets sel. assets"
            and query_region = "Point 0 0", OF absent]
       registered
  show ?thesis by simp
qed

section \<open>Further properties\<close>

text \<open>
  The search dict does not see the metadata nor the fields that are \<^verbatim>\<open>None\<close>: a body
  and the same body without these fields give the same dict, so two registrations that
  differ in them only are the same search.
\<close>

theorem SearchParams_search_canonical:
  "SearchParams_search
      (filter (\<lambda>f. field_name f \<noteq> ''metadata'' \<and> field_val f \<noteq> None) body)
     = SearchParams_search body"
  by (induction body) (auto simp: SearchParams_search_def model_dict_def Option.is_none_def)

text \<open>
  An exception of the lookup is not stored: when the cache holds no live entry and the
  body raises, the call raises the same exception, and a call that follows at the same
  or a later time asks the catalog again.
\<close>

theorem get_stac_item_error_not_cached:
  assumes "fst (TTLCache_getitem now (collection, item) (entries s)) = None"
      and "get_stac_item_body from_dict pool collection item = Inl e"
      and "get_stac_item cfg from_dict now s pool collection item = (r, s1)"
      and "now \<le> later"
  shows "r = Inl e \<and> fetches s1 = Suc (fetches s)
       \<and> fetches (snd (get_stac_item cfg from_dict later s1 pool' collection item))
           = Suc (fetches s1)"
proof -
  let ?k = "(collection, item)"
  have first: "r = Inl e \<and> fetches s1 = Suc (fetches s)
       \<and> entries s1 = snd (TTLCache_getitem now ?k (entries s))"
    using assms(1,2,3)
    by (auto simp: get_stac_item_def cache_key_def Let_def split: prod.splits option.splits)
  have still: "fst (TTLCache_getitem later ?k (entries s1)) = None"
  proof (cases "map_of (entries s) ?k")
    case None
    then have "entries s1 = entries s"
      using first by (simp add: TTLCache_getitem_def)
    with None show ?thesis by (simp add: TTLCache_getitem_def)
  next
    case (Some ve)
    obtain v expires where ve: "ve = (v, expires)" by (cases ve)
    from assms(1) Some ve have dead: "\<not> now < expires"
      by (auto simp: TTLCache_getitem_def split: if_splits)
    from Some ve first
    have "entries s1 = filter (\<lambda>e. fst e \<noteq> ?k) (entries s) @ [(?k, v, expires)]"
      by (simp add: TTLCache_getitem_def)
    then have "map_of (entries s1) ?k = Some (v, expires)"
      by (simp add: map_of_moved_to_end del: map_of_append)
    moreover from dead assms(4) have "\<not> later < expires" by simp
    ultimately show ?thesis by (rule TTLCache_getitem_expired)
  qed
  from get_stac_item_miss [OF still] first show ?thesis by blast
qed

theorem get_stac_item_error_not_cached_witness:
  "get_stac_item example_settings Inr 0 empty_cache (catalog_pool noaa_catalog)
      ''noaa-emergency-response'' ''nope''
     = (Inl (item_not_found ''noaa-emergency-response'' ''nope''), \<lparr>entries = [], fetches = 1\<rparr>)
   \<and> fetches (snd (get_stac_item example_settings Inr 5 \<lparr>entries = [], fetches = 1\<rparr>
        (catalog_pool noaa_catalog) ''noaa-emergency-response'' ''nope'')) = 2"
proof -
  let ?c = "''noaa-emergency-response''"
  let ?P = "catalog_pool noaa_catalog"
  let ?s1 = "\<lparr>entries = [], fetches = 1\<rparr> :: pyval item_cache"
  have miss: "fst (TTLCache_getitem 0 (?c, ''nope'') (entries empty_cache)) = None"
    by (simp add: TTLCache_getitem_def empty_cache_def)
  have raises: "get_stac_item_body Inr ?P ?c ''nope'' = Inl (item_not_found ?c ''nope'')"
    by (simp add: get_stac_item_body_catalog_pool noaa_catalog_def)
  have call: "get_stac_item example_settings Inr 0 empty_cache ?P ?c ''nope''
                = (Inl (item_not_found ?c ''nope''), ?s1)"
    by (simp add: get_stac_item_def cache_key_def TTLCache_getitem_def empty_cache_def raises)
  have order: "(0 :: real) \<le> 5" by simp
  from get_stac_item_error_not_cached [OF miss raises call order, of ?P]
  have "fetches (snd (get_stac_item example_settings Inr 5 ?s1 ?P ?c ''nope'')) = Suc (fetches ?s1)"
    by simp
  with call show ?thesis by simp
qed

text \<open>
  \<^verbatim>\<open>is_bigtiff\<close> is true exactly when the array takes more than 4000000000 bytes, so
  an array it lets pass as a classic TIFF is smaller than \<open>2 ^ 32\<close> bytes; and for a
  two-dimensional array \<^verbatim>\<open>render_cog\<close> writes one band with the COG driver and the
  BIGTIFF flag that \<^verbatim>\<open>is_bigtiff\<close> gives for the array.
\<close>

theorem is_bigtiff_threshold:
  "is_bigtiff read (Array a) = (array_size a * itemsize a > 4000000000)
   \<and> (\<not> is_bigtiff read (Array a) \<longrightarrow> array_size a * itemsize a < 2 ^ 32)
   \<and> (length (shape a) = 2 \<longrightarrow>
        (\<exists>cube. render_cog_prepare a compression nodata =
           Inr (cube,
                \<lparr>driver = ''COG'', nodata_value = nodata, band_count = 1, tiled = True,
                 compress = compression,
                 BIGTIFF = (if is_bigtiff read (Array a) then ''YES'' else ''NO''),
                 COPY_SRC_OVERVIEWS = ''YES''\<rparr>)
           \<and> shape cube = 1 # shape a))"
  by (auto simp: is_bigtiff_def render_cog_prepare_def array_size_def Let_def)

theorem is_bigtiff_threshold_witness:
  "is_bigtiff read (Array large_raster)
   \<and> render_cog_prepare large_raster ''lzw'' (Some 0)
      = Inr (\<lparr>shape = [1, 40000, 30000], itemsize = 4, masked = True\<rparr>,
             \<lparr>driver = ''COG'', nodata_value = Some 0, band_count = 1, tiled = True,
              compress = ''lzw'', BIGTIFF = ''YES'', COPY_SRC_OVERVIEWS = ''YES''\<rparr>)"
proof -
  have "is_bigtiff read (Array large_raster)"
    using is_bigtiff_threshold [of read large_raster]
    by (simp add: array_size_def large_raster_def)
  moreover have "render_cog_prepare large_raster ''lzw'' (Some 0)
      = Inr (\<lparr>shape = [1, 40000, 30000], itemsize = 4, masked = True\<rparr>,
             \<lparr>driver = ''COG'', nodata_value = Some 0, band_count = 1, tiled = True,
              compress = ''lzw'', BIGTIFF = ''YES'', COPY_SRC_OVERVIEWS = ''YES''\<rparr>)"
    by (simp add: render_cog_prepare_def is_bigtiff_def array_size_def large_raster_def Let_def)
  ultimately show ?thesis by simp
qed

end
